theory Spec2Isabelle
  imports Main
begin

section \<open>The remote task-log handler (WasbTaskHandler)\<close>

text \<open>
  A shallow embedding of \<^verbatim>\<open>airflow/providers/microsoft/azure/log/wasb_task_handler.py\<close>.

  The handler object is a record of its fields. Everything outside the handler (the blob
  store behind the hook, the local file system, the parent \<^verbatim>\<open>FileTaskHandler\<close>, the
  logger) is the world; the world is represented by the chronological list of the calls
  the handler has made on it so far (a trace of events), and every answer of a collaborator
  is a function of that history. Each method takes the handler and the trace and returns
  its outcome with the updated handler and the extended trace. Exceptions are values:
  an outcome is \<open>Inl e\<close> when the method raises \<open>e\<close> and \<open>Inr v\<close> when it returns \<open>v\<close>.
\<close>

subsection \<open>Exceptions, task instances, events\<close>

text \<open>
  The exception classes the source distinguishes (all of them subclasses of Python's
  \<^verbatim>\<open>Exception\<close>): \<^verbatim>\<open>AzureHttpError\<close>, which three \<^verbatim>\<open>except\<close> clauses name;
  \<^verbatim>\<open>AttributeError\<close>, which Python raises for a method call on \<^verbatim>\<open>None\<close>; and any other one.
\<close>

datatype exn = AzureHttpError | AttributeError | OtherError string

record TaskInstance =
  ti_key :: string
  try_number :: int
  raw :: bool

datatype event =
    ParentSetContext TaskInstance
  | ParentClose
  | ParentRead TaskInstance int "string option"
  | NewWasbHook string
  | CheckForBlob string string
  | ReadFile string string
  | LoadString string string string bool
  | PathExists string
  | FileRead string
  | Rmtree string
  | LogDebug exn
  | LogException string
  | WasbWriteCall string string bool

text \<open>
  \<open>WasbWriteCall log loc append\<close> marks the entry into \<^verbatim>\<open>wasb_write\<close>; every other
  event is a call on a collaborator, recorded when the call is made, whatever its outcome:
  \<open>LoadString text container blob overwrite\<close> is the call of \<^verbatim>\<open>hook.load_string\<close>,
  \<open>Rmtree dir\<close> the call of \<^verbatim>\<open>shutil.rmtree\<close>, and so on.
\<close>

datatype WasbHook = Hook string

subsection \<open>The collaborators\<close>

text \<open>
  Modelled from the spec: the hook class \<^verbatim>\<open>WasbHook\<close>, the parent class
  \<^verbatim>\<open>FileTaskHandler\<close>, the configuration and the file system are not part of the sources;
  they are parameters of the model, with the interfaces of section 6 of the spec.
  The constructor of the hook, its three operations and the reading of a local file may
  raise any exception; the other local collaborators (parent handler, templating,
  existence check, removal of a directory), which the spec does not declare as raising,
  are total. The parent's methods act on the world only: the fields that
  \<^verbatim>\<open>WasbTaskHandler.__init__\<close> itself initialises are written by the methods below and by
  nothing else.
\<close>

record collab =
  conf_get :: "string \<Rightarrow> string \<Rightarrow> string"
  WasbHook_new :: "event list \<Rightarrow> string \<Rightarrow> exn option"
  check_for_blob :: "event list \<Rightarrow> string \<Rightarrow> string \<Rightarrow> exn + bool"
  read_file :: "event list \<Rightarrow> string \<Rightarrow> string \<Rightarrow> exn + string"
  load_string :: "event list \<Rightarrow> string \<Rightarrow> string \<Rightarrow> string \<Rightarrow> bool \<Rightarrow> exn option"
  render_filename :: "TaskInstance \<Rightarrow> int \<Rightarrow> string"
  parent_read :: "event list \<Rightarrow> TaskInstance \<Rightarrow> int \<Rightarrow> string option \<Rightarrow> string \<times> (string \<times> bool) list"
  path_exists :: "event list \<Rightarrow> string \<Rightarrow> bool"
  file_read :: "event list \<Rightarrow> string \<Rightarrow> exn + string"

subsection \<open>Paths\<close>

text \<open>\<^verbatim>\<open>os.path.join\<close> and \<^verbatim>\<open>os.path.dirname\<close> of \<^verbatim>\<open>posixpath\<close>, for two components.\<close>

definition os_path_join :: "string \<Rightarrow> string \<Rightarrow> string" where
  "os_path_join a b =
     (if b \<noteq> [] \<and> hd b = CHR ''/'' then b
      else if a = [] \<or> last a = CHR ''/'' then a @ b
      else a @ ''/'' @ b)"

definition os_path_dirname :: "string \<Rightarrow> string" where
  "os_path_dirname p =
     (let head = rev (dropWhile (\<lambda>c. c \<noteq> CHR ''/'') (rev p))
      in if head \<noteq> [] \<and> \<not> list_all (\<lambda>c. c = CHR ''/'') head
         then rev (dropWhile (\<lambda>c. c = CHR ''/'') (rev head))
         else head)"

text \<open>
  \<^verbatim>\<open>os.path.exists\<close> and the built-in \<^verbatim>\<open>open(...).read()\<close> on a POSIX file system, over
  the file system of the environment. The empty path names nothing; a path that is empty
  or ends in a separator names no regular file, so that opening it for reading raises a
  subclass of \<^verbatim>\<open>OSError\<close> (\<^verbatim>\<open>FileNotFoundError\<close>, \<^verbatim>\<open>IsADirectoryError\<close> or
  \<^verbatim>\<open>NotADirectoryError\<close>). Any other path is read by the environment, which returns the
  text of the file or raises (\<^verbatim>\<open>PermissionError\<close>, \<^verbatim>\<open>UnicodeDecodeError\<close>, ...).
\<close>

definition os_path_exists :: "collab \<Rightarrow> event list \<Rightarrow> string \<Rightarrow> bool" where
  "os_path_exists E tr p = (p \<noteq> [] \<and> path_exists E tr p)"

definition open_read :: "collab \<Rightarrow> event list \<Rightarrow> string \<Rightarrow> exn + string" where
  "open_read E tr p =
     (if p = [] \<or> last p = CHR ''/'' then Inl (OtherError ''OSError'')
      else file_read E tr p)"

subsection \<open>The handler object\<close>

text \<open>
  \<open>hook_slot\<close> is the slot of the \<^verbatim>\<open>cached_property\<close>: \<open>None\<close> while the property has not
  been computed, \<open>Some v\<close> once it has returned \<open>v\<close> (and \<open>v\<close> is \<open>None\<close> when the
  construction failed with \<^verbatim>\<open>AzureHttpError\<close>). Of \<open>delete_local_copy\<close> the code uses
  the truth value only.
\<close>

record WasbTaskHandler =
  local_base :: string
  filename_template :: "string option"
  wasb_container :: string
  remote_base :: string
  log_relative_path :: string
  hook_slot :: "WasbHook option option"
  closed :: bool
  upload_on_close :: bool
  delete_local_copy :: bool

type_synonym 'a outcome = "(exn + 'a) \<times> WasbTaskHandler \<times> event list"

definition init :: "string \<Rightarrow> string \<Rightarrow> string \<Rightarrow> bool \<Rightarrow> string option \<Rightarrow> WasbTaskHandler" where
  "init base_log_folder wasb_log_folder container delete_copy template =
     \<lparr> local_base = base_log_folder,
       filename_template = template,
       wasb_container = container,
       remote_base = wasb_log_folder,
       log_relative_path = [],
       hook_slot = None,
       closed = False,
       upload_on_close = True,
       delete_local_copy = delete_copy \<rparr>"

text \<open>The property \<^verbatim>\<open>hook\<close> (lines 56-71).\<close>

definition hook :: "collab \<Rightarrow> WasbTaskHandler \<Rightarrow> event list \<Rightarrow> (WasbHook option) outcome" where
  "hook E h tr =
     (case hook_slot h of
        Some v \<Rightarrow> (Inr v, h, tr)
      | None \<Rightarrow>
          (let remote_conn_id = conf_get E ''logging'' ''REMOTE_LOG_CONN_ID'';
               tr1 = tr @ [NewWasbHook remote_conn_id]
           in case WasbHook_new E tr remote_conn_id of
                None \<Rightarrow>
                  (Inr (Some (Hook remote_conn_id)),
                   h\<lparr>hook_slot := Some (Some (Hook remote_conn_id))\<rparr>, tr1)
              | Some e \<Rightarrow>
                  if e = AzureHttpError
                  then (Inr None, h\<lparr>hook_slot := Some None\<rparr>,
                        tr1 @ [LogException
                                 (''Could not create an WasbHook with connection id ''
                                  @ [CHR 0x22] @ remote_conn_id @ [CHR 0x22]
                                  @ ''. Please make sure that apache-airflow[azure] is installed''
                                  @ '' and the Wasb connection exists.'')])
                  else (Inl e, h, tr1)))"

text \<open>
  The expression \<^verbatim>\<open>self.hook.<method>\<close>: the property, then the attribute lookup, which
  raises \<^verbatim>\<open>AttributeError\<close> on \<^verbatim>\<open>None\<close>.
\<close>

definition hook_method :: "collab \<Rightarrow> WasbTaskHandler \<Rightarrow> event list \<Rightarrow> WasbHook outcome" where
  "hook_method E h tr =
     (case hook E h tr of
        (Inl e, h1, tr1) \<Rightarrow> (Inl e, h1, tr1)
      | (Inr None, h1, tr1) \<Rightarrow> (Inl AttributeError, h1, tr1)
      | (Inr (Some hk), h1, tr1) \<Rightarrow> (Inr hk, h1, tr1))"

text \<open>\<^verbatim>\<open>set_context\<close> (lines 73-78).\<close>

definition set_context ::
  "collab \<Rightarrow> WasbTaskHandler \<Rightarrow> TaskInstance \<Rightarrow> event list \<Rightarrow> WasbTaskHandler \<times> event list" where
  "set_context E h ti tr =
     (h\<lparr>log_relative_path := render_filename E ti (try_number ti),
        upload_on_close := \<not> raw ti\<rparr>,
      tr @ [ParentSetContext ti])"

text \<open>\<^verbatim>\<open>wasb_log_exists\<close> (lines 133-145): \<^verbatim>\<open>except Exception\<close> catches every exception.\<close>

definition wasb_log_exists ::
  "collab \<Rightarrow> WasbTaskHandler \<Rightarrow> string \<Rightarrow> event list \<Rightarrow> bool outcome" where
  "wasb_log_exists E h remote_log_location tr =
     (case hook_method E h tr of
        (Inl e, h1, tr1) \<Rightarrow> (Inr False, h1, tr1 @ [LogDebug e])
      | (Inr hk, h1, tr1) \<Rightarrow>
          (case check_for_blob E tr1 (wasb_container h1) remote_log_location of
             Inr b \<Rightarrow> (Inr b, h1, tr1 @ [CheckForBlob (wasb_container h1) remote_log_location])
           | Inl e \<Rightarrow>
               (Inr False, h1,
                tr1 @ [CheckForBlob (wasb_container h1) remote_log_location, LogDebug e])))"

text \<open>\<^verbatim>\<open>wasb_read\<close> (lines 147-164): only \<^verbatim>\<open>AzureHttpError\<close> is caught.\<close>

definition wasb_read ::
  "collab \<Rightarrow> WasbTaskHandler \<Rightarrow> string \<Rightarrow> bool \<Rightarrow> event list \<Rightarrow> string outcome" where
  "wasb_read E h remote_log_location return_error tr =
     (let msg = ''Could not read logs from '' @ remote_log_location
      in case hook_method E h tr of
           (Inl e, h1, tr1) \<Rightarrow>
             if e = AzureHttpError
             then (Inr (if return_error then msg else []), h1, tr1 @ [LogException msg])
             else (Inl e, h1, tr1)
         | (Inr hk, h1, tr1) \<Rightarrow>
             (let tr2 = tr1 @ [ReadFile (wasb_container h1) remote_log_location]
              in case read_file E tr1 (wasb_container h1) remote_log_location of
                   Inr content \<Rightarrow> (Inr content, h1, tr2)
                 | Inl e \<Rightarrow>
                     if e = AzureHttpError
                     then (Inr (if return_error then msg else []), h1, tr2 @ [LogException msg])
                     else (Inl e, h1, tr2)))"

text \<open>
  \<^verbatim>\<open>wasb_write\<close> (lines 166-183). The condition \<^verbatim>\<open>append and self.wasb_log_exists(...)\<close>
  calls the existence check only when \<open>append\<close> is true; an exception of \<^verbatim>\<open>wasb_read\<close>
  is outside the \<^verbatim>\<open>try\<close> and propagates; \<^verbatim>\<open>'\n'.join([old_log, log])\<close> is taken when
  \<open>old_log\<close> is not empty.
\<close>

definition merge_log :: "string \<Rightarrow> string \<Rightarrow> string" where
  "merge_log old_log log = (if old_log \<noteq> [] then old_log @ [CHR 0x0A] @ log else log)"

definition wasb_write ::
  "collab \<Rightarrow> WasbTaskHandler \<Rightarrow> string \<Rightarrow> string \<Rightarrow> bool \<Rightarrow> event list \<Rightarrow> unit outcome" where
  "wasb_write E h log remote_log_location append' tr =
     (let tr0 = tr @ [WasbWriteCall log remote_log_location append'];
          merged =
            (case (if append' then wasb_log_exists E h remote_log_location tr0
                   else (Inr False, h, tr0)) of
               (Inl e, h1, tr1) \<Rightarrow> (Inl e, h1, tr1)
             | (Inr False, h1, tr1) \<Rightarrow> (Inr log, h1, tr1)
             | (Inr True, h1, tr1) \<Rightarrow>
                 (case wasb_read E h1 remote_log_location False tr1 of
                    (Inl e, h2, tr2) \<Rightarrow> (Inl e, h2, tr2)
                  | (Inr old_log, h2, tr2) \<Rightarrow> (Inr (merge_log old_log log), h2, tr2)))
      in case merged of
           (Inl e, h2, tr2) \<Rightarrow> (Inl e, h2, tr2)
         | (Inr log', h2, tr2) \<Rightarrow>
             (case hook_method E h2 tr2 of
                (Inl e, h3, tr3) \<Rightarrow>
                  if e = AzureHttpError
                  then (Inr (), h3,
                        tr3 @ [LogException (''Could not write logs to '' @ remote_log_location)])
                  else (Inl e, h3, tr3)
              | (Inr hk, h3, tr3) \<Rightarrow>
                  (let tr4 = tr3 @ [LoadString log' (wasb_container h3) remote_log_location True]
                   in case load_string E tr3 log' (wasb_container h3) remote_log_location True of
                        None \<Rightarrow> (Inr (), h3, tr4)
                      | Some e \<Rightarrow>
                          if e = AzureHttpError
                          then (Inr (), h3,
                                tr4 @ [LogException
                                         (''Could not write logs to '' @ remote_log_location)])
                          else (Inl e, h3, tr4))))"

text \<open>
  \<^verbatim>\<open>close\<close> (lines 80-105). The reading of the local file (lines 98-99) is inside no
  \<^verbatim>\<open>try\<close>: when it raises, \<^verbatim>\<open>close\<close> raises, before \<^verbatim>\<open>wasb_write\<close> and before line 105.
\<close>

definition close :: "collab \<Rightarrow> WasbTaskHandler \<Rightarrow> event list \<Rightarrow> unit outcome" where
  "close E h tr =
     (if closed h then (Inr (), h, tr)
      else
        (let tr1 = tr @ [ParentClose]
         in if \<not> upload_on_close h then (Inr (), h, tr1)
            else
              (let local_loc = os_path_join (local_base h) (log_relative_path h);
                   remote_loc = os_path_join (remote_base h) (log_relative_path h);
                   tr2 = tr1 @ [PathExists local_loc]
               in if os_path_exists E tr1 local_loc
                  then
                    (let tr3 = tr2 @ [FileRead local_loc]
                     in case open_read E tr2 local_loc of
                          Inl e \<Rightarrow> (Inl e, h, tr3)
                        | Inr log \<Rightarrow>
                            (case wasb_write E h log remote_loc True tr3 of
                               (Inl e, h4, tr4) \<Rightarrow> (Inl e, h4, tr4)
                             | (Inr u, h4, tr4) \<Rightarrow>
                                 if delete_local_copy h4
                                 then (Inr (), h4\<lparr>closed := True\<rparr>,
                                       tr4 @ [Rmtree (os_path_dirname local_loc)])
                                 else (Inr (), h4\<lparr>closed := True\<rparr>, tr4)))
                  else (Inr (), h\<lparr>closed := True\<rparr>, tr2))))"

text \<open>\<^verbatim>\<open>_read\<close> (lines 107-131); the status map is the list of its items.\<close>

definition read_log ::
  "collab \<Rightarrow> WasbTaskHandler \<Rightarrow> TaskInstance \<Rightarrow> int \<Rightarrow> string option \<Rightarrow> event list
     \<Rightarrow> (string \<times> (string \<times> bool) list) outcome" where
  "read_log E h ti try_no metadata tr =
     (let rel_path = render_filename E ti try_no;
          remote_loc = os_path_join (remote_base h) rel_path
      in case wasb_log_exists E h remote_loc tr of
           (Inl e, h1, tr1) \<Rightarrow> (Inl e, h1, tr1)
         | (Inr True, h1, tr1) \<Rightarrow>
             (case wasb_read E h1 remote_loc True tr1 of
                (Inl e, h2, tr2) \<Rightarrow> (Inl e, h2, tr2)
              | (Inr remote_log, h2, tr2) \<Rightarrow>
                  (Inr (''*** Reading remote log from '' @ remote_loc @ ''.'' @ [CHR 0x0A]
                          @ remote_log @ [CHR 0x0A],
                        [(''end_of_log'', True)]),
                   h2, tr2))
         | (Inr False, h1, tr1) \<Rightarrow>
             (Inr (parent_read E tr1 ti try_no None), h1,
              tr1 @ [ParentRead ti try_no None]))"

subsection \<open>Observations on outcomes and traces\<close>

definition result_of :: "'a outcome \<Rightarrow> exn + 'a" where
  "result_of out = fst out"

definition handler_of :: "'a outcome \<Rightarrow> WasbTaskHandler" where
  "handler_of out = fst (snd out)"

definition trace_of :: "'a outcome \<Rightarrow> event list" where
  "trace_of out = snd (snd out)"

text \<open>The events a call has added to the trace \<open>tr\<close> it started from.\<close>

definition new_events :: "event list \<Rightarrow> 'a outcome \<Rightarrow> event list" where
  "new_events tr out = drop (length tr) (trace_of out)"

fun is_remote_write :: "event \<Rightarrow> bool" where
  "is_remote_write (LoadString t c b ov) = True"
| "is_remote_write _ = False"

fun is_local_delete :: "event \<Rightarrow> bool" where
  "is_local_delete (Rmtree d) = True"
| "is_local_delete _ = False"

fun is_parent_read :: "event \<Rightarrow> bool" where
  "is_parent_read (ParentRead ti n md) = True"
| "is_parent_read _ = False"

fun is_upload_attempt :: "event \<Rightarrow> bool" where
  "is_upload_attempt (WasbWriteCall log loc app) = True"
| "is_upload_attempt _ = False"

subsection \<open>A reference environment for concrete runs\<close>

text \<open>
  Modelled from the spec: an in-memory blob store and file system behind the interfaces of
  section 6, used to run the handler on concrete inputs. \<open>files\<close> are the local paths
  that exist, each with the outcome of reading it (its text, or the exception raised for
  a directory or an unreadable file), \<open>blobs\<close> the initial content of the store, \<open>ctor\<close>
  the outcome of constructing the hook. A blob holds the text of the last \<^verbatim>\<open>load_string\<close>
  made on it; reading an absent blob raises \<^verbatim>\<open>AzureHttpError\<close>; a path exists until its
  directory is removed; the parent's local read reports the metadata it was given.
\<close>

definition blob_at ::
  "((string \<times> string) \<times> string) list \<Rightarrow> event list \<Rightarrow> string \<Rightarrow> string \<Rightarrow> string option" where
  "blob_at blobs tr c b =
     fold (\<lambda>e cur. case e of
                      LoadString t c' b' ov \<Rightarrow> (if c' = c \<and> b' = b then Some t else cur)
                    | _ \<Rightarrow> cur)
       tr (map_of blobs (c, b))"

definition mem_env ::
  "(string \<times> (exn + string)) list \<Rightarrow> ((string \<times> string) \<times> string) list \<Rightarrow> exn option
     \<Rightarrow> collab" where
  "mem_env files blobs ctor =
     \<lparr> conf_get = (\<lambda>section key. ''wasb_default''),
       WasbHook_new = (\<lambda>tr conn. ctor),
       check_for_blob = (\<lambda>tr c b. Inr (blob_at blobs tr c b \<noteq> None)),
       read_file = (\<lambda>tr c b. case blob_at blobs tr c b of
                                Some t \<Rightarrow> Inr t
                              | None \<Rightarrow> Inl AzureHttpError),
       load_string = (\<lambda>tr t c b ov. None),
       render_filename = (\<lambda>ti n. ti_key ti @ (if n = 1 then ''/1.log'' else ''/n.log'')),
       parent_read = (\<lambda>tr ti n md.
                        (case md of None \<Rightarrow> ''local'' | Some m \<Rightarrow> ''local from '' @ m,
                         [(''end_of_log'', False)])),
       path_exists = (\<lambda>tr p. map_of files p \<noteq> None \<and> Rmtree (os_path_dirname p) \<notin> set tr),
       file_read = (\<lambda>tr p. case map_of files p of
                             Some r \<Rightarrow> r
                           | None \<Rightarrow> Inl (OtherError ''FileNotFoundError'')) \<rparr>"

definition ti1 :: TaskInstance where
  "ti1 = \<lparr> ti_key = ''d/t'', try_number = 1, raw = False \<rparr>"

definition h0 :: WasbTaskHandler where
  "h0 = init ''/logs'' ''wasb/logs'' ''cont'' True None"

subsection \<open>Auxiliary notions\<close>

text \<open>
  \<open>frame h h'\<close>: the handler \<open>h'\<close> differs from \<open>h\<close> in the slot of the cached hook at
  most, and a slot that was filled keeps its value. The quiet events are the calls that
  neither write to the store, nor delete locally, nor read through the parent, nor enter
  \<^verbatim>\<open>wasb_write\<close>.
\<close>

definition frame :: "WasbTaskHandler \<Rightarrow> WasbTaskHandler \<Rightarrow> bool" where
  "frame h h' \<longleftrightarrow>
     h' = h\<lparr>hook_slot := hook_slot h'\<rparr> \<and> (hook_slot h \<noteq> None \<longrightarrow> hook_slot h' = hook_slot h)"

fun is_quiet :: "event \<Rightarrow> bool" where
  "is_quiet (NewWasbHook c) = True"
| "is_quiet (CheckForBlob c b) = True"
| "is_quiet (ReadFile c b) = True"
| "is_quiet (LogDebug e) = True"
| "is_quiet (LogException m) = True"
| "is_quiet _ = False"

text \<open>
  The two locations that \<^verbatim>\<open>close\<close> computes (lines 94-95) and the text it reads from the
  local file (lines 98-99) when the read succeeds, as functions of the handler and of the
  trace at the call.
\<close>

definition local_loc :: "WasbTaskHandler \<Rightarrow> string" where
  "local_loc h = os_path_join (local_base h) (log_relative_path h)"

definition remote_loc :: "WasbTaskHandler \<Rightarrow> string" where
  "remote_loc h = os_path_join (remote_base h) (log_relative_path h)"

definition local_log :: "collab \<Rightarrow> WasbTaskHandler \<Rightarrow> event list \<Rightarrow> string" where
  "local_log E h tr =
     (case open_read E (tr @ [ParentClose, PathExists (local_loc h)]) (local_loc h) of
        Inr log \<Rightarrow> log
      | Inl e \<Rightarrow> [])"

text \<open>
  Concrete environments and handlers for the reference environment: a store that holds
  \<open>A\<close> at the location of the first try, with a local log file holding \<open>B\<close>; the same with
  a hook whose construction fails with \<^verbatim>\<open>AzureHttpError\<close>; the same with a store whose
  read fails with an exception that is not an \<^verbatim>\<open>AzureHttpError\<close>; the same with a local log
  file that exists and cannot be read; an empty store without local files; a file system
  in which the local root is a directory; the handler after \<^verbatim>\<open>set_context\<close> for a normal
  and for a raw run.
\<close>

definition env1 :: collab where
  "env1 =
     mem_env [(''/logs/d/t/1.log'', Inr ''B'')] [((''cont'', ''wasb/logs/d/t/1.log''), ''A'')] None"

definition env_no_hook :: collab where
  "env_no_hook =
     mem_env [(''/logs/d/t/1.log'', Inr ''B'')] [((''cont'', ''wasb/logs/d/t/1.log''), ''A'')]
       (Some AzureHttpError)"

definition env_read_fails :: collab where
  "env_read_fails = env1\<lparr>read_file := (\<lambda>tr c b. Inl (OtherError ''AzureException''))\<rparr>"

definition env_unreadable :: collab where
  "env_unreadable =
     mem_env [(''/logs/d/t/1.log'', Inl (OtherError ''PermissionError''))]
       [((''cont'', ''wasb/logs/d/t/1.log''), ''A'')] None"

definition env_empty :: collab where
  "env_empty = mem_env [] [] None"

definition env_dir :: collab where
  "env_dir = mem_env [(''/logs/'', Inl (OtherError ''IsADirectoryError''))] [] None"

definition h_ctx :: WasbTaskHandler where
  "h_ctx = fst (set_context env1 h0 ti1 [])"

definition h_raw :: WasbTaskHandler where
  "h_raw = fst (set_context env1 h0 (ti1\<lparr>raw := True\<rparr>) [])"

section \<open>Basic facts\<close>

lemmas run_defs = env1_def env_no_hook_def env_read_fails_def env_unreadable_def env_empty_def
  env_dir_def h_ctx_def h_raw_def mem_env_def blob_at_def
  ti1_def h0_def init_def set_context_def hook_def hook_method_def wasb_log_exists_def wasb_read_def
  wasb_write_def close_def read_log_def merge_log_def os_path_join_def os_path_dirname_def
  os_path_exists_def open_read_def local_loc_def remote_loc_def local_log_def
  result_of_def handler_of_def trace_of_def new_events_def Let_def

lemma frame_refl: "frame h h"
  by (simp add: frame_def)

lemma frame_trans: "frame h h1 \<Longrightarrow> frame h1 h2 \<Longrightarrow> frame h h2"
  by (cases h, cases h1, cases h2) (auto simp: frame_def)

lemma frame_fields:
  assumes "frame h h'"
  shows "local_base h' = local_base h" "wasb_container h' = wasb_container h"
    "remote_base h' = remote_base h" "log_relative_path h' = log_relative_path h"
    "closed h' = closed h" "upload_on_close h' = upload_on_close h"
    "delete_local_copy h' = delete_local_copy h" "filename_template h' = filename_template h"
  using assms by (cases h, cases h', simp add: frame_def)+

lemma hook_cached: "hook_slot h = Some v \<Longrightarrow> hook E h tr = (Inr v, h, tr)"
  by (simp add: hook_def)

lemma hook_frame:
  assumes "hook E h tr = (r, h1, tr1)"
  shows "frame h h1"
    and "\<exists>ev. tr1 = tr @ ev \<and> (\<forall>e \<in> set ev. is_quiet e)"
    and "r \<noteq> Inl AzureHttpError"
    and "r = Inr v \<Longrightarrow> hook_slot h1 = Some v"
  using assms by (auto simp: hook_def frame_def Let_def split: option.splits if_splits)

lemma hook_method_frame:
  assumes "hook_method E h tr = (r, h1, tr1)"
  shows "frame h h1"
    and "\<exists>ev. tr1 = tr @ ev \<and> (\<forall>e \<in> set ev. is_quiet e)"
    and "r \<noteq> Inl AzureHttpError"
    and "r = Inr hk \<Longrightarrow> hook_slot h1 = Some (Some hk)"
proof -
  obtain r0 where H: "hook E h tr = (r0, h1, tr1)"
    using assms by (auto simp: hook_method_def split: prod.splits sum.splits option.splits)
  show "frame h h1" using hook_frame(1)[OF H] .
  show "\<exists>ev. tr1 = tr @ ev \<and> (\<forall>e \<in> set ev. is_quiet e)"
    using hook_frame(2)[OF H] .
  show "r \<noteq> Inl AzureHttpError"
    using assms H hook_frame(3)[OF H]
    by (auto simp: hook_method_def split: prod.splits sum.splits option.splits)
  show "r = Inr hk \<Longrightarrow> hook_slot h1 = Some (Some hk)"
    using assms H hook_frame(4)[OF H]
    by (auto simp: hook_method_def split: prod.splits sum.splits option.splits)
qed

lemma hook_method_cached:
  "hook_slot h = Some (Some hk) \<Longrightarrow> hook_method E h tr = (Inr hk, h, tr)"
  by (simp add: hook_method_def hook_cached)

lemma hook_method_none:
  "hook_slot h = Some None \<Longrightarrow> hook_method E h tr = (Inl AttributeError, h, tr)"
  by (simp add: hook_method_def hook_cached)

lemma wasb_log_exists_frame:
  assumes "wasb_log_exists E h loc tr = (r, h1, tr1)"
  shows "frame h h1"
    and "\<exists>ev. tr1 = tr @ ev \<and> (\<forall>e \<in> set ev. is_quiet e)"
    and "\<exists>b. r = Inr b"
    and "r = Inr True \<Longrightarrow> \<exists>hk. hook_slot h1 = Some (Some hk)"
proof -
  obtain r0 h0 tr0 where H: "hook_method E h tr = (r0, h0, tr0)"
    by (metis prod_cases3)
  note F = hook_method_frame[OF H]
  from F(2) obtain ev where ev: "tr0 = tr @ ev" "\<forall>e \<in> set ev. is_quiet e" by blast
  show "frame h h1" using assms H F(1)
    by (auto simp: wasb_log_exists_def split: sum.splits)
  show "\<exists>ev. tr1 = tr @ ev \<and> (\<forall>e \<in> set ev. is_quiet e)"
    using assms H ev by (auto simp: wasb_log_exists_def split: sum.splits)
  show "\<exists>b. r = Inr b"
    using assms H by (auto simp: wasb_log_exists_def split: sum.splits) metis+
  show "r = Inr True \<Longrightarrow> \<exists>hk. hook_slot h1 = Some (Some hk)"
    using assms H F(4) by (auto simp: wasb_log_exists_def split: sum.splits)
qed

lemma wasb_read_frame:
  assumes "wasb_read E h loc re tr = (r, h1, tr1)"
  shows "frame h h1"
    and "\<exists>ev. tr1 = tr @ ev \<and> (\<forall>e \<in> set ev. is_quiet e)"
proof -
  obtain r0 h0 tr0 where H: "hook_method E h tr = (r0, h0, tr0)"
    by (metis prod_cases3)
  note F = hook_method_frame[OF H]
  from F(2) obtain ev where ev: "tr0 = tr @ ev" "\<forall>e \<in> set ev. is_quiet e" by blast
  show "frame h h1" using assms H F(1)
    by (auto simp: wasb_read_def Let_def split: sum.splits if_splits)
  show "\<exists>ev. tr1 = tr @ ev \<and> (\<forall>e \<in> set ev. is_quiet e)"
    using assms H ev by (auto simp: wasb_read_def Let_def split: sum.splits if_splits)
qed

lemma wasb_write_frame:
  assumes "wasb_write E h log loc app tr = (r, h1, tr1)"
  shows "frame h h1"
    and "\<exists>ev. tr1 = tr @ WasbWriteCall log loc app # ev \<and>
           (\<forall>e \<in> set ev. is_quiet e \<or> is_remote_write e) \<and>
           (r = Inr () \<longrightarrow> (\<exists>e \<in> set ev. is_remote_write e)) \<and>
           (r = Inr () \<longrightarrow> (\<exists>text. LoadString text (wasb_container h) loc True \<in> set ev))"
proof -
  let ?tr0 = "tr @ [WasbWriteCall log loc app]"
  obtain ra ha tra where A:
    "(if app then wasb_log_exists E h loc ?tr0 else (Inr False, h, ?tr0)) = (ra, ha, tra)"
    by (metis prod_cases3)
  have Fa: "frame h ha" and Ea: "\<exists>ev. tra = ?tr0 @ ev \<and> (\<forall>e \<in> set ev. is_quiet e)"
    and Ra: "\<exists>b. ra = Inr b"
    using A wasb_log_exists_frame[of E h loc ?tr0 ra ha tra]
    by (auto simp: frame_refl split: if_splits)
  obtain rb hb trb where B: "wasb_read E ha loc False tra = (rb, hb, trb)"
    by (metis prod_cases3)
  note Fb = wasb_read_frame[OF B]
  define m where "m = (case ra of Inr True \<Rightarrow> (case rb of Inl e \<Rightarrow> (Inl e, hb, trb) | Inr old_log \<Rightarrow> (Inr (merge_log old_log log), hb, trb))
     | _ \<Rightarrow> (Inr log, ha, tra))"
  obtain rm hm trm where M: "m = (rm, hm, trm)" by (metis prod_cases3)
  have Fm: "frame h hm" and Em: "\<exists>ev. trm = ?tr0 @ ev \<and> (\<forall>e \<in> set ev. is_quiet e)"
    using M Fa Ea Ra Fb frame_trans[OF Fa Fb(1)]
    by (auto simp: m_def split: sum.splits bool.splits)
  obtain rc hc trc where C: "hook_method E hm trm = (rc, hc, trc)"
    by (metis prod_cases3)
  note Fc = hook_method_frame[OF C]
  have W: "wasb_write E h log loc app tr =
        (case rm of Inl e \<Rightarrow> (Inl e, hm, trm)
         | Inr log' \<Rightarrow> (case rc of
              Inl e \<Rightarrow> if e = AzureHttpError then (Inr (), hc, trc @ [LogException (''Could not write logs to '' @ loc)]) else (Inl e, hc, trc)
            | Inr hk \<Rightarrow> (let tr4 = trc @ [LoadString log' (wasb_container hc) loc True]
                   in case load_string E trc log' (wasb_container hc) loc True of
                        None \<Rightarrow> (Inr (), hc, tr4)
                      | Some e \<Rightarrow>
                          if e = AzureHttpError
                          then (Inr (), hc, tr4 @ [LogException (''Could not write logs to '' @ loc)])
                          else (Inl e, hc, tr4))))"
    using A B M C Ra unfolding wasb_write_def Let_def m_def
    by (auto split: sum.splits bool.splits prod.splits if_splits)
  from Em obtain ev1 where ev1: "trm = ?tr0 @ ev1" "\<forall>e \<in> set ev1. is_quiet e" by blast
  from Fc(2) obtain ev2 where ev2: "trc = trm @ ev2" "\<forall>e \<in> set ev2. is_quiet e" by blast
  show "frame h h1"
    using assms W Fm frame_trans[OF Fm Fc(1)]
    by (auto simp: Let_def split: sum.splits option.splits if_splits)
  show "\<exists>ev. tr1 = tr @ WasbWriteCall log loc app # ev \<and>
           (\<forall>e \<in> set ev. is_quiet e \<or> is_remote_write e) \<and>
           (r = Inr () \<longrightarrow> (\<exists>e \<in> set ev. is_remote_write e)) \<and>
           (r = Inr () \<longrightarrow> (\<exists>text. LoadString text (wasb_container h) loc True \<in> set ev))"
    using assms W ev1 ev2 Fc(3) frame_fields(2)[OF frame_trans[OF Fm Fc(1)]]
    by (auto simp: Let_def split: sum.splits option.splits if_splits)
qed

lemma wasb_write_checks:
  assumes "hook_method E h (tr @ [WasbWriteCall log loc True]) = (Inr hk, h1, tr1)"
  shows "CheckForBlob (wasb_container h) loc \<in> set (new_events tr (wasb_write E h log loc True tr))"
proof -
  let ?c = "wasb_container h"
  let ?tr0 = "tr @ [WasbWriteCall log loc True]"
  note F = hook_method_frame[OF assms]
  have c: "wasb_container h1 = ?c" using frame_fields(2)[OF F(1)] .
  from F(2) obtain ev where ev: "tr1 = ?tr0 @ ev" by blast
  obtain ra ha tra where A: "wasb_log_exists E h loc ?tr0 = (ra, ha, tra)"
    by (metis prod_cases3)
  have "\<exists>z. tra = tr1 @ CheckForBlob ?c loc # z"
    using A assms c by (auto simp: wasb_log_exists_def split: sum.splits)
  then obtain z where z: "tra = tr1 @ CheckForBlob ?c loc # z" by blast
  obtain r h2 tr2 where W: "wasb_write E h log loc True tr = (r, h2, tr2)"
    by (metis prod_cases3)
  have "\<exists>y. tr2 = tra @ y"
  proof -
    obtain rb hb trb where B: "wasb_read E ha loc False tra = (rb, hb, trb)"
      by (metis prod_cases3)
    from wasb_read_frame(2)[OF B] obtain eb where eb: "trb = tra @ eb" by blast
    have hmx: "\<And>hx tx. \<exists>rc hc ec. hook_method E hx tx = (rc, hc, tx @ ec)"
      by (metis hook_method_frame(2) prod_cases3)
    obtain rc hc ec where C1: "hook_method E ha tra = (rc, hc, tra @ ec)" using hmx by blast
    obtain rd hd ed where C2: "hook_method E hb trb = (rd, hd, trb @ ed)" using hmx by blast
    from wasb_log_exists_frame(3)[OF A] obtain b where b: "ra = Inr b" by blast
    show ?thesis
      using W A B C1 C2 eb b
      by (cases b; cases rb)
         (auto simp: wasb_write_def Let_def split: sum.splits option.splits if_splits)
  qed
  then obtain y where y: "tr2 = tra @ y" by blast
  show ?thesis
    by (simp add: W y z ev new_events_def trace_of_def)
qed

lemma quiet_not:
  "is_quiet e \<Longrightarrow> \<not> is_remote_write e \<and> \<not> is_local_delete e \<and> \<not> is_parent_read e \<and> \<not> is_upload_attempt e"
  by (cases e) simp_all

lemma quiet_filter: "\<forall>e \<in> set ev. is_quiet e \<Longrightarrow> filter is_remote_write ev = []"
  by (induction ev) (auto dest: quiet_not)

lemma split_at_last:
  "xs @ [a] = pre @ b # post \<Longrightarrow> \<forall>x \<in> set xs. \<not> P x \<Longrightarrow> P b \<Longrightarrow> pre = xs \<and> post = [] \<and> a = b"
  by (induction xs arbitrary: pre) (auto simp: Cons_eq_append_conv)

lemma not_delete: "is_quiet x \<or> is_remote_write x \<Longrightarrow> \<not> is_local_delete x \<and> \<not> is_upload_attempt x \<and> \<not> is_parent_read x"
  by (cases x) simp_all

lemma new_events_append: "new_events tr (r, h, tr @ ev) = ev"
  by (simp add: new_events_def trace_of_def)

lemma no_delete_no_split:
  "\<forall>x \<in> set xs. \<not> is_local_delete x \<Longrightarrow> xs \<noteq> pre @ Rmtree d # post"
  by (metis in_set_conv_decomp is_local_delete.simps(1))

text \<open>The five ways in which \<^verbatim>\<open>close\<close> can run, with the events of each.\<close>

lemma close_cases:
  obtains (already) "closed h" "close E h tr = (Inr (), h, tr)"
  | (raw) "\<not> closed h" "\<not> upload_on_close h" "close E h tr = (Inr (), h, tr @ [ParentClose])"
  | (nofile) "\<not> closed h" "upload_on_close h" "\<not> os_path_exists E (tr @ [ParentClose]) (local_loc h)"
      "close E h tr = (Inr (), h\<lparr>closed := True\<rparr>, tr @ [ParentClose, PathExists (local_loc h)])"
  | (unreadable) e where "\<not> closed h" "upload_on_close h"
      "os_path_exists E (tr @ [ParentClose]) (local_loc h)"
      "open_read E (tr @ [ParentClose, PathExists (local_loc h)]) (local_loc h) = Inl e"
      "close E h tr = (Inl e, h, tr @ [ParentClose, PathExists (local_loc h), FileRead (local_loc h)])"
  | (failed) e h4 ev where "\<not> closed h" "upload_on_close h"
      "os_path_exists E (tr @ [ParentClose]) (local_loc h)" "frame h h4"
      "\<forall>x \<in> set ev. is_quiet x \<or> is_remote_write x"
      "open_read E (tr @ [ParentClose, PathExists (local_loc h)]) (local_loc h) = Inr (local_log E h tr)"
      "close E h tr = (Inl e, h4, tr @ [ParentClose, PathExists (local_loc h), FileRead (local_loc h),
          WasbWriteCall (local_log E h tr) (remote_loc h) True] @ ev)"
  | (uploaded) h4 ev where "\<not> closed h" "upload_on_close h"
      "os_path_exists E (tr @ [ParentClose]) (local_loc h)" "frame h h4"
      "\<forall>x \<in> set ev. is_quiet x \<or> is_remote_write x" "\<exists>x \<in> set ev. is_remote_write x"
      "open_read E (tr @ [ParentClose, PathExists (local_loc h)]) (local_loc h) = Inr (local_log E h tr)"
      "\<exists>text. LoadString text (wasb_container h) (remote_loc h) True \<in> set ev"
      "close E h tr = (Inr (), h4\<lparr>closed := True\<rparr>,
          tr @ [ParentClose, PathExists (local_loc h), FileRead (local_loc h),
          WasbWriteCall (local_log E h tr) (remote_loc h) True] @ ev @
          (if delete_local_copy h then [Rmtree (os_path_dirname (local_loc h))] else []))"
proof -
  let ?tr2 = "tr @ [ParentClose, PathExists (local_loc h)]"
  let ?tr3 = "tr @ [ParentClose, PathExists (local_loc h), FileRead (local_loc h)]"
  obtain r h4 tr4 where W:
    "wasb_write E h (local_log E h tr) (remote_loc h) True ?tr3 = (r, h4, tr4)"
    by (metis prod_cases3)
  note F = wasb_write_frame[OF W]
  from F(2) obtain ev where ev:
    "tr4 = ?tr3 @ WasbWriteCall (local_log E h tr) (remote_loc h) True # ev"
    "\<forall>x \<in> set ev. is_quiet x \<or> is_remote_write x"
    "r = Inr () \<longrightarrow> (\<exists>x \<in> set ev. is_remote_write x)"
    "r = Inr () \<longrightarrow> (\<exists>text. LoadString text (wasb_container h) (remote_loc h) True \<in> set ev)"
    by blast
  have d: "delete_local_copy h4 = delete_local_copy h" using frame_fields(7)[OF F(1)] .
  consider "closed h" | "\<not> closed h" "\<not> upload_on_close h"
    | "\<not> closed h" "upload_on_close h" "\<not> os_path_exists E (tr @ [ParentClose]) (local_loc h)"
    | "\<not> closed h" "upload_on_close h" "os_path_exists E (tr @ [ParentClose]) (local_loc h)"
    by blast
  then show thesis
  proof cases
    case 1
    then show thesis using already by (simp add: close_def)
  next
    case 2
    then show thesis using raw by (simp add: close_def)
  next
    case 3
    then show thesis using nofile by (simp add: close_def local_loc_def Let_def)
  next
    case 4
    show thesis
    proof (cases "open_read E ?tr2 (local_loc h)")
      case (Inl e)
      have "close E h tr = (Inl e, h, ?tr3)"
        using 4 Inl by (simp add: close_def local_loc_def Let_def)
      then show thesis using unreadable[of e] 4 Inl by simp
    next
      case (Inr log)
      have ll: "local_log E h tr = log" using Inr by (simp add: local_log_def)
      have C: "close E h tr = (case r of Inl e \<Rightarrow> (Inl e, h4, tr4)
          | Inr u \<Rightarrow> if delete_local_copy h then (Inr (), h4\<lparr>closed := True\<rparr>, tr4 @ [Rmtree (os_path_dirname (local_loc h))])
                     else (Inr (), h4\<lparr>closed := True\<rparr>, tr4))"
        using 4 W d Inr ll
        by (simp add: close_def local_loc_def remote_loc_def Let_def split: sum.splits)
      have o: "open_read E ?tr2 (local_loc h) = Inr (local_log E h tr)" using Inr ll by simp
      show thesis
      proof (cases r)
        case (Inl e)
        then show thesis using failed[of h4 ev e] 4 C ev F(1) o by simp
      next
        case (Inr u)
        then show thesis using uploaded[of h4 ev] 4 C ev F(1) o by simp
      qed
    qed
  qed
qed

text \<open>The read path never looks at the relative path cached by \<^verbatim>\<open>set_context\<close>.\<close>

lemma hook_ignores_path:
  "hook E (h\<lparr>log_relative_path := p\<rparr>) tr =
     (case hook E h tr of (r, h1, tr1) \<Rightarrow> (r, h1\<lparr>log_relative_path := p\<rparr>, tr1))"
  by (simp add: hook_def Let_def split: option.splits)

lemma hook_method_ignores_path:
  "hook_method E (h\<lparr>log_relative_path := p\<rparr>) tr =
     (case hook_method E h tr of (r, h1, tr1) \<Rightarrow> (r, h1\<lparr>log_relative_path := p\<rparr>, tr1))"
  by (simp add: hook_method_def hook_ignores_path split: prod.splits sum.splits option.splits)

lemma wasb_log_exists_ignores_path:
  "wasb_log_exists E (h\<lparr>log_relative_path := p\<rparr>) loc tr =
     (case wasb_log_exists E h loc tr of (r, h1, tr1) \<Rightarrow> (r, h1\<lparr>log_relative_path := p\<rparr>, tr1))"
  by (simp add: wasb_log_exists_def hook_method_ignores_path split: prod.splits sum.splits)

lemma wasb_read_ignores_path:
  "wasb_read E (h\<lparr>log_relative_path := p\<rparr>) loc re tr =
     (case wasb_read E h loc re tr of (r, h1, tr1) \<Rightarrow> (r, h1\<lparr>log_relative_path := p\<rparr>, tr1))"
  by (simp add: wasb_read_def hook_method_ignores_path Let_def split: prod.splits sum.splits)

lemma read_log_ignores_path:
  "result_of (read_log E (h\<lparr>log_relative_path := p\<rparr>) ti n md tr) = result_of (read_log E h ti n md tr)"
  by (simp add: read_log_def wasb_log_exists_ignores_path wasb_read_ignores_path Let_def result_of_def
      split: prod.splits sum.splits bool.splits)

text \<open>
  What \<^verbatim>\<open>wasb_read\<close> does by its \<^verbatim>\<open>except AzureHttpError\<close> clause: a read that fails with
  this class gives the message or the empty text, and the method never raises this class.
\<close>

lemma wasb_read_on_azure_error:
  assumes "hook_method E h tr = (Inr hk, h1, tr1)"
    and "read_file E tr1 (wasb_container h) loc = Inl AzureHttpError"
  shows "result_of (wasb_read E h loc re tr) = Inr (if re then ''Could not read logs from '' @ loc else [])"
proof -
  have c: "wasb_container h1 = wasb_container h"
    using frame_fields(2)[OF hook_method_frame(1)[OF assms(1)]] .
  show ?thesis by (simp add: wasb_read_def assms c result_of_def Let_def)
qed

lemma wasb_read_never_raises_azure:
  "result_of (wasb_read E h loc re tr) \<noteq> Inl AzureHttpError"
proof -
  obtain r0 h0 tr0 where H: "hook_method E h tr = (r0, h0, tr0)"
    by (metis prod_cases3)
  show ?thesis using H hook_method_frame(3)[OF H]
    by (auto simp: wasb_read_def result_of_def Let_def split: sum.splits if_splits)
qed

section \<open>Idempotent close\<close>

text \<open>
  Claim C1, as amended. After a call of \<^verbatim>\<open>close\<close> that returns normally on a handler whose
  \<open>upload_on_close\<close> is true (or that was closed already), the flag \<open>closed\<close> is true and
  every later call of \<^verbatim>\<open>close\<close>, in whatever environment, is a pure no-op: it returns
  with the handler and the trace unchanged, so there is no parent close, no remote write
  and no local delete. When \<open>upload_on_close\<close> is false on an open handler, \<^verbatim>\<open>close\<close>
  returns at line 92 and leaves \<open>closed\<close> false; every later call performs the parent
  close again and nothing else (no remote write, no local delete).
\<close>

theorem close_second_call:
  assumes "close E h tr = (Inr u, h1, tr1)"
  shows "(closed h \<or> upload_on_close h \<longrightarrow>
           closed h1 \<and> (\<forall>E' tr2. close E' h1 tr2 = (Inr (), h1, tr2))) \<and>
         (\<not> closed h \<and> \<not> upload_on_close h \<longrightarrow>
           \<not> closed h1 \<and> (\<forall>E' tr2. close E' h1 tr2 = (Inr (), h1, tr2 @ [ParentClose])))"
proof (cases rule: close_cases[of h E tr])
  case already
  then show ?thesis using assms by (auto simp: close_def)
next
  case raw
  then show ?thesis using assms by (auto simp: close_def)
next
  case nofile
  then show ?thesis using assms by (auto simp: close_def)
next
  case (unreadable e)
  then show ?thesis using assms by simp
next
  case (failed e h4 ev)
  then show ?thesis using assms by simp
next
  case (uploaded h4 ev)
  then show ?thesis using assms by (auto simp: close_def)
qed

text \<open>
  Witness for C1: closing the handler of a normal run in the reference environment, then
  closing it again; and the same for the handler of a raw run.
\<close>

theorem close_second_call_witness:
  "close env1 h_ctx [] = (Inr (), handler_of (close env1 h_ctx []), trace_of (close env1 h_ctx []))
   \<and> upload_on_close h_ctx
   \<and> closed (handler_of (close env1 h_ctx []))
   \<and> close env1 (handler_of (close env1 h_ctx [])) (trace_of (close env1 h_ctx []))
       = (Inr (), handler_of (close env1 h_ctx []), trace_of (close env1 h_ctx []))
   \<and> close env1 h_raw [] = (Inr (), h_raw, [ParentClose])
   \<and> \<not> closed h_raw \<and> \<not> upload_on_close h_raw
   \<and> close env1 h_raw [ParentClose] = (Inr (), h_raw, [ParentClose] @ [ParentClose])"
proof -
  have r: "fst (close env1 h_ctx []) = Inr ()" by (simp add: run_defs)
  have c: "close env1 h_ctx [] = (Inr (), handler_of (close env1 h_ctx []), trace_of (close env1 h_ctx []))"
    using r by (simp add: handler_of_def trace_of_def prod_eq_iff)
  have u: "upload_on_close h_ctx" by (simp add: h_ctx_def set_context_def ti1_def)
  have c2: "close env1 h_raw [] = (Inr (), h_raw, [ParentClose])"
    by (simp add: close_def h_raw_def set_context_def h0_def init_def ti1_def)
  have u2: "\<not> closed h_raw" "\<not> upload_on_close h_raw"
    by (simp_all add: h_raw_def set_context_def h0_def init_def ti1_def)
  show ?thesis using close_second_call[OF c] close_second_call[OF c2] c u c2 u2 by blast
qed

text \<open>
  Counterexample to C1 as stated: after \<^verbatim>\<open>set_context\<close> with a raw task instance, the
  first \<^verbatim>\<open>close\<close> leaves \<open>closed\<close> false, and the second call performs the parent close
  a second time.
\<close>

theorem close_raw_stays_open_counterexample:
  "\<not> closed (handler_of (close env1 h_raw []))
   \<and> trace_of (close env1 (handler_of (close env1 h_raw [])) (trace_of (close env1 h_raw [])))
       = [ParentClose, ParentClose]"
  by (simp add: run_defs)

section \<open>Reading with local fallback\<close>

text \<open>
  Claim C2, evaluated where it fails. With an empty store the existence check reports the
  location absent and \<^verbatim>\<open>_read\<close> returns the parent's result unmodified; but line 131 calls
  \<^verbatim>\<open>super()._read(ti, try_number)\<close> without the metadata: for the metadata \<open>5\<close> the parent
  is called with \<open>None\<close> and answers \<open>local\<close>, where the call with the caller's metadata
  would answer \<open>local from 5\<close>.
\<close>

theorem read_log_drops_metadata:
  "result_of (read_log env_empty h0 ti1 1 (Some ''5'') []) = Inr (''local'', [(''end_of_log'', False)])
   \<and> parent_read env_empty [NewWasbHook ''wasb_default'', CheckForBlob ''cont'' ''wasb/logs/d/t/1.log''] ti1 1 (Some ''5'')
       = (''local from 5'', [(''end_of_log'', False)])
   \<and> trace_of (read_log env_empty h0 ti1 1 (Some ''5'') [])
       = [NewWasbHook ''wasb_default'', CheckForBlob ''cont'' ''wasb/logs/d/t/1.log'', ParentRead ti1 1 None]"
  by (simp add: run_defs)

section \<open>The remote primitives\<close>

text \<open>
  Claim C3, evaluated where it fails. When the construction of the hook fails with
  \<^verbatim>\<open>AzureHttpError\<close> the property \<^verbatim>\<open>hook\<close> is \<open>None\<close>; \<^verbatim>\<open>wasb_read\<close> with
  \<open>return_error = True\<close> then raises \<^verbatim>\<open>AttributeError\<close>, which its \<^verbatim>\<open>except\<close> clause does
  not catch, instead of returning an error text.
\<close>

theorem wasb_read_raises_without_hook:
  "result_of (wasb_read env_no_hook h0 ''wasb/logs/d/t/1.log'' True []) = Inl AttributeError"
  by (simp add: run_defs)

text \<open>
  Claim C4, evaluated where it fails. With the same hook \<^verbatim>\<open>wasb_write\<close> raises
  \<^verbatim>\<open>AttributeError\<close>, and the \<^verbatim>\<open>close\<close> that called it is aborted: it raises, the handler
  is not marked closed and the local copy is not deleted.
\<close>

theorem wasb_write_raises_without_hook:
  "result_of (wasb_write env_no_hook h0 ''B'' ''wasb/logs/d/t/1.log'' True []) = Inl AttributeError
   \<and> result_of (close env_no_hook h_ctx []) = Inl AttributeError
   \<and> \<not> closed (handler_of (close env_no_hook h_ctx []))
   \<and> filter is_local_delete (trace_of (close env_no_hook h_ctx [])) = []"
  by (simp add: run_defs)

text \<open>
  Claim C5. Let the hook be available when \<^verbatim>\<open>wasb_write\<close> with \<open>append = True\<close> asks for
  it. If the store reports the location present and its content \<open>old\<close>, the one text that
  \<^verbatim>\<open>wasb_write\<close> sends to the store (by \<^verbatim>\<open>load_string\<close>, at this location, overwriting)
  is \<open>old\<close>, a newline and the new text when \<open>old\<close> is not empty, and the new text alone
  when \<open>old\<close> is empty; if the store reports the location absent, it is the new text alone.
\<close>

theorem wasb_write_append_order:
  assumes "hook_method E h (tr @ [WasbWriteCall log loc True]) = (Inr hk, h1, tr1)"
  shows "(\<forall>old. check_for_blob E tr1 (wasb_container h) loc = Inr True \<and>
            read_file E (tr1 @ [CheckForBlob (wasb_container h) loc]) (wasb_container h) loc = Inr old \<longrightarrow>
            filter is_remote_write (new_events tr (wasb_write E h log loc True tr)) =
              [LoadString (if old = [] then log else old @ [CHR 0x0A] @ log) (wasb_container h) loc True]) \<and>
         (check_for_blob E tr1 (wasb_container h) loc = Inr False \<longrightarrow>
            filter is_remote_write (new_events tr (wasb_write E h log loc True tr)) =
              [LoadString log (wasb_container h) loc True])"
proof -
  let ?c = "wasb_container h"
  let ?tr0 = "tr @ [WasbWriteCall log loc True]"
  let ?tr2 = "tr1 @ [CheckForBlob ?c loc]"
  note F = hook_method_frame[OF assms]
  have c: "wasb_container h1 = ?c" using frame_fields(2)[OF F(1)] .
  have s: "hook_slot h1 = Some (Some hk)" using F(4) by simp
  from F(2) obtain ev where ev: "tr1 = ?tr0 @ ev" "\<forall>e \<in> set ev. is_quiet e"
    by blast
  have q: "filter is_remote_write ev = []" using quiet_filter[OF ev(2)] .
  have hm: "\<And>t. hook_method E h1 t = (Inr hk, h1, t)" using hook_method_cached[OF s] .
  have fin: "\<And>t text. filter is_remote_write
        (drop (length tr) (trace_of (case load_string E (tr1 @ t) text ?c loc True of
              None \<Rightarrow> (Inr (), h1, (tr1 @ t) @ [LoadString text ?c loc True])
            | Some e \<Rightarrow> if e = AzureHttpError
                then (Inr (), h1, ((tr1 @ t) @ [LoadString text ?c loc True]) @
                        [LogException (''Could not write logs to '' @ loc)])
                else (Inl e, h1, (tr1 @ t) @ [LoadString text ?c loc True]))))
      = filter is_remote_write t @ [LoadString text ?c loc True]"
    by (simp add: ev(1) q trace_of_def split: option.splits)
  have present: "filter is_remote_write (new_events tr (wasb_write E h log loc True tr)) =
              [LoadString (if old = [] then log else old @ [CHR 0x0A] @ log) ?c loc True]"
    if chk: "check_for_blob E tr1 ?c loc = Inr True" and rd: "read_file E ?tr2 ?c loc = Inr old" for old
  proof -
    have X: "wasb_log_exists E h loc ?tr0 = (Inr True, h1, ?tr2)"
      by (simp add: wasb_log_exists_def assms c chk)
    have R: "wasb_read E h1 loc False ?tr2 = (Inr old, h1, ?tr2 @ [ReadFile ?c loc])"
      by (simp add: wasb_read_def hm c rd)
    have "wasb_write E h log loc True tr =
        (case load_string E (tr1 @ [CheckForBlob ?c loc, ReadFile ?c loc]) (merge_log old log) ?c loc True of
              None \<Rightarrow> (Inr (), h1, (tr1 @ [CheckForBlob ?c loc, ReadFile ?c loc]) @ [LoadString (merge_log old log) ?c loc True])
            | Some e \<Rightarrow> if e = AzureHttpError
                then (Inr (), h1, ((tr1 @ [CheckForBlob ?c loc, ReadFile ?c loc]) @ [LoadString (merge_log old log) ?c loc True]) @
                        [LogException (''Could not write logs to '' @ loc)])
                else (Inl e, h1, (tr1 @ [CheckForBlob ?c loc, ReadFile ?c loc]) @ [LoadString (merge_log old log) ?c loc True]))"
      by (simp add: wasb_write_def X R hm c Let_def cong: option.case_cong if_cong)
    then show ?thesis
      using fin[of "[CheckForBlob ?c loc, ReadFile ?c loc]" "merge_log old log"]
      by (simp add: new_events_def merge_log_def)
  qed
  have absent: "filter is_remote_write (new_events tr (wasb_write E h log loc True tr)) =
              [LoadString log ?c loc True]"
    if chk: "check_for_blob E tr1 ?c loc = Inr False"
  proof -
    have X: "wasb_log_exists E h loc ?tr0 = (Inr False, h1, ?tr2)"
      by (simp add: wasb_log_exists_def assms c chk)
    have "wasb_write E h log loc True tr =
        (case load_string E (tr1 @ [CheckForBlob ?c loc]) log ?c loc True of
              None \<Rightarrow> (Inr (), h1, (tr1 @ [CheckForBlob ?c loc]) @ [LoadString log ?c loc True])
            | Some e \<Rightarrow> if e = AzureHttpError
                then (Inr (), h1, ((tr1 @ [CheckForBlob ?c loc]) @ [LoadString log ?c loc True]) @
                        [LogException (''Could not write logs to '' @ loc)])
                else (Inl e, h1, (tr1 @ [CheckForBlob ?c loc]) @ [LoadString log ?c loc True]))"
      by (simp add: wasb_write_def X hm c Let_def cong: option.case_cong if_cong)
    then show ?thesis
      using fin[of "[CheckForBlob ?c loc]" log]
      by (simp add: new_events_def)
  qed
  show ?thesis using present absent by blast
qed

text \<open>Witness for C5: writing \<open>B\<close> over a blob that holds \<open>A\<close> stores \<open>A\<close>, newline, \<open>B\<close>.\<close>

theorem wasb_write_append_order_witness:
  "hook_method env1 h0 ([] @ [WasbWriteCall ''B'' ''wasb/logs/d/t/1.log'' True])
      = (Inr (Hook ''wasb_default''), h0\<lparr>hook_slot := Some (Some (Hook ''wasb_default''))\<rparr>,
         [WasbWriteCall ''B'' ''wasb/logs/d/t/1.log'' True, NewWasbHook ''wasb_default''])
   \<and> filter is_remote_write (new_events [] (wasb_write env1 h0 ''B'' ''wasb/logs/d/t/1.log'' True []))
      = [LoadString ''A\<newline>B'' ''cont'' ''wasb/logs/d/t/1.log'' True]"
proof -
  have h: "hook_method env1 h0 ([] @ [WasbWriteCall ''B'' ''wasb/logs/d/t/1.log'' True])
      = (Inr (Hook ''wasb_default''), h0\<lparr>hook_slot := Some (Some (Hook ''wasb_default''))\<rparr>,
         [WasbWriteCall ''B'' ''wasb/logs/d/t/1.log'' True, NewWasbHook ''wasb_default''])"
    by (simp add: env1_def mem_env_def hook_method_def hook_def h0_def init_def Let_def)
  have c: "check_for_blob env1 [WasbWriteCall ''B'' ''wasb/logs/d/t/1.log'' True, NewWasbHook ''wasb_default'']
      (wasb_container h0) ''wasb/logs/d/t/1.log'' = Inr True"
    by (simp add: env1_def mem_env_def blob_at_def h0_def init_def)
  have r: "read_file env1 ([WasbWriteCall ''B'' ''wasb/logs/d/t/1.log'' True, NewWasbHook ''wasb_default'']
       @ [CheckForBlob (wasb_container h0) ''wasb/logs/d/t/1.log''])
      (wasb_container h0) ''wasb/logs/d/t/1.log'' = Inr ''A''"
    by (simp add: env1_def mem_env_def blob_at_def h0_def init_def)
  show ?thesis
    using h c r wasb_write_append_order[OF h] by (simp add: h0_def init_def)
qed

text \<open>
  Claim C8. \<^verbatim>\<open>wasb_log_exists\<close> always returns a boolean, never an exception. It returns
  \<open>False\<close> when the hook is not available (its construction failed or raised), and when
  the existence check of the hook raises; otherwise it returns the result of that check.
\<close>

theorem wasb_log_exists_degrades_to_absent:
  "(\<exists>b. result_of (wasb_log_exists E h loc tr) = Inr b) \<and>
   (\<forall>e h1 tr1. hook_method E h tr = (Inl e, h1, tr1) \<longrightarrow>
      result_of (wasb_log_exists E h loc tr) = Inr False) \<and>
   (\<forall>hk h1 tr1 e. hook_method E h tr = (Inr hk, h1, tr1) \<and>
        check_for_blob E tr1 (wasb_container h) loc = Inl e \<longrightarrow>
      result_of (wasb_log_exists E h loc tr) = Inr False) \<and>
   (\<forall>hk h1 tr1 b. hook_method E h tr = (Inr hk, h1, tr1) \<and>
        check_for_blob E tr1 (wasb_container h) loc = Inr b \<longrightarrow>
      result_of (wasb_log_exists E h loc tr) = Inr b)"
proof -
  have c: "\<And>r h1 tr1. hook_method E h tr = (r, h1, tr1) \<Longrightarrow> wasb_container h1 = wasb_container h"
    using hook_method_frame(1) frame_fields(2) by blast
  show ?thesis
    by (auto simp: wasb_log_exists_def result_of_def dest: c split: prod.splits sum.splits)
qed

text \<open>Witness for C8: a hook whose construction failed; the check answers \<open>False\<close>.\<close>

theorem wasb_log_exists_degrades_to_absent_witness:
  "hook_method env_no_hook h0 [] =
     (Inl AttributeError, h0\<lparr>hook_slot := Some None\<rparr>,
      [NewWasbHook ''wasb_default'',
       LogException
         (''Could not create an WasbHook with connection id '' @ [CHR 0x22] @ ''wasb_default''
          @ [CHR 0x22] @ ''. Please make sure that apache-airflow[azure] is installed''
          @ '' and the Wasb connection exists.'')])
   \<and> result_of (wasb_log_exists env_no_hook h0 ''wasb/logs/d/t/1.log'' []) = Inr False"
proof -
  have m: "hook_method env_no_hook h0 [] =
     (Inl AttributeError, h0\<lparr>hook_slot := Some None\<rparr>,
      [NewWasbHook ''wasb_default'',
       LogException
         (''Could not create an WasbHook with connection id '' @ [CHR 0x22] @ ''wasb_default''
          @ [CHR 0x22] @ ''. Please make sure that apache-airflow[azure] is installed''
          @ '' and the Wasb connection exists.'')])"
    by (simp add: env_no_hook_def mem_env_def hook_method_def hook_def h0_def init_def Let_def)
  show ?thesis
    using wasb_log_exists_degrades_to_absent[of env_no_hook h0 "''wasb/logs/d/t/1.log''" "[]"] m
    by blast
qed

section \<open>Upload at close time\<close>

text \<open>
  Claim C6, as amended. \<^verbatim>\<open>set_context\<close> sets \<open>upload_on_close\<close> to the negation of the raw
  flag of the task instance, and the \<^verbatim>\<open>close\<close> that follows attempts the remote upload
  (enters \<^verbatim>\<open>wasb_write\<close>) if and only if the handler was not closed already, the raw flag
  is false, the local file exists at the joined local location when \<^verbatim>\<open>close\<close> asks, and
  reading that file succeeds. In that case \<^verbatim>\<open>wasb_write\<close> is entered with the text read
  and the joined remote location; if the hook is available it asks the store for that
  location, and if \<^verbatim>\<open>close\<close> returns normally a \<^verbatim>\<open>load_string\<close> on that location has been
  made. No \<^verbatim>\<open>load_string\<close> is made without such an attempt, and after a raw
  \<^verbatim>\<open>set_context\<close>, \<^verbatim>\<open>close\<close> neither enters \<^verbatim>\<open>wasb_write\<close> nor calls \<^verbatim>\<open>load_string\<close>,
  whatever the local files.
\<close>

theorem close_upload_iff:
  "upload_on_close (fst (set_context E h ti tr0)) = (\<not> raw ti) \<and>
   ((\<exists>x \<in> set (new_events tr (close E (fst (set_context E h ti tr0)) tr)). is_upload_attempt x) \<longleftrightarrow>
      \<not> closed h \<and> \<not> raw ti \<and>
      os_path_exists E (tr @ [ParentClose])
        (os_path_join (local_base h) (render_filename E ti (try_number ti))) \<and>
      (\<exists>log. open_read E
               (tr @ [ParentClose,
                      PathExists (os_path_join (local_base h) (render_filename E ti (try_number ti)))])
               (os_path_join (local_base h) (render_filename E ti (try_number ti))) = Inr log)) \<and>
   (\<forall>log. \<not> closed h \<and> \<not> raw ti \<and>
      os_path_exists E (tr @ [ParentClose])
        (os_path_join (local_base h) (render_filename E ti (try_number ti))) \<and>
      open_read E
        (tr @ [ParentClose,
               PathExists (os_path_join (local_base h) (render_filename E ti (try_number ti)))])
        (os_path_join (local_base h) (render_filename E ti (try_number ti))) = Inr log \<longrightarrow>
      WasbWriteCall log (os_path_join (remote_base h) (render_filename E ti (try_number ti))) True
        \<in> set (new_events tr (close E (fst (set_context E h ti tr0)) tr)) \<and>
      (\<forall>hk h1 tr1.
         hook_method E (fst (set_context E h ti tr0))
           (tr @ [ParentClose,
                  PathExists (os_path_join (local_base h) (render_filename E ti (try_number ti))),
                  FileRead (os_path_join (local_base h) (render_filename E ti (try_number ti))),
                  WasbWriteCall log
                    (os_path_join (remote_base h) (render_filename E ti (try_number ti))) True])
           = (Inr hk, h1, tr1) \<longrightarrow>
         CheckForBlob (wasb_container h)
             (os_path_join (remote_base h) (render_filename E ti (try_number ti)))
           \<in> set (new_events tr (close E (fst (set_context E h ti tr0)) tr))) \<and>
      (result_of (close E (fst (set_context E h ti tr0)) tr) = Inr () \<longrightarrow>
         (\<exists>text. LoadString text (wasb_container h)
                   (os_path_join (remote_base h) (render_filename E ti (try_number ti))) True
            \<in> set (new_events tr (close E (fst (set_context E h ti tr0)) tr))))) \<and>
   ((\<exists>x \<in> set (new_events tr (close E (fst (set_context E h ti tr0)) tr)). is_remote_write x) \<longrightarrow>
      (\<exists>x \<in> set (new_events tr (close E (fst (set_context E h ti tr0)) tr)). is_upload_attempt x)) \<and>
   (raw ti \<longrightarrow> (\<forall>x \<in> set (new_events tr (close E (fst (set_context E h ti tr0)) tr)).
                   \<not> is_upload_attempt x \<and> \<not> is_remote_write x))"
proof -
  define h' where "h' = fst (set_context E h ti tr0)"
  define L where "L = os_path_join (local_base h) (render_filename E ti (try_number ti))"
  define R where "R = os_path_join (remote_base h) (render_filename E ti (try_number ti))"
  define N where "N = new_events tr (close E h' tr)"
  have u: "upload_on_close h' = (\<not> raw ti)" and c: "closed h' = closed h"
    and l: "local_loc h' = L" and r: "remote_loc h' = R"
    and wc: "wasb_container h' = wasb_container h"
    by (simp_all add: h'_def L_def R_def set_context_def local_loc_def remote_loc_def)
  have main:
    "((\<exists>x \<in> set N. is_upload_attempt x) \<longleftrightarrow>
        \<not> closed h' \<and> upload_on_close h' \<and> os_path_exists E (tr @ [ParentClose]) L \<and>
        (\<exists>log. open_read E (tr @ [ParentClose, PathExists L]) L = Inr log)) \<and>
     (\<forall>log. \<not> closed h' \<and> upload_on_close h' \<and> os_path_exists E (tr @ [ParentClose]) L \<and>
        open_read E (tr @ [ParentClose, PathExists L]) L = Inr log \<longrightarrow>
        WasbWriteCall log R True \<in> set N \<and>
        (\<forall>hk h1 tr1.
           hook_method E h' (tr @ [ParentClose, PathExists L, FileRead L, WasbWriteCall log R True])
             = (Inr hk, h1, tr1) \<longrightarrow>
           CheckForBlob (wasb_container h') R \<in> set N) \<and>
        (result_of (close E h' tr) = Inr () \<longrightarrow>
           (\<exists>text. LoadString text (wasb_container h') R True \<in> set N))) \<and>
     ((\<exists>x \<in> set N. is_remote_write x) \<longrightarrow> (\<exists>x \<in> set N. is_upload_attempt x)) \<and>
     (\<not> upload_on_close h' \<longrightarrow> (\<forall>x \<in> set N. \<not> is_upload_attempt x \<and> \<not> is_remote_write x))"
  proof (cases rule: close_cases[of h' E tr])
    case already
    then show ?thesis by (simp add: N_def new_events_def trace_of_def)
  next
    case raw
    then show ?thesis by (simp add: N_def new_events_append)
  next
    case nofile
    then show ?thesis by (simp add: N_def new_events_append l)
  next
    case (unreadable e)
    then show ?thesis by (simp add: N_def new_events_append l)
  next
    case (failed e h4 ev)
    let ?log = "local_log E h' tr"
    let ?tr3 = "tr @ [ParentClose, PathExists L, FileRead L]"
    have n: "N = [ParentClose, PathExists L, FileRead L, WasbWriteCall ?log R True] @ ev"
      using failed by (simp add: N_def new_events_append l r)
    have o: "open_read E (tr @ [ParentClose, PathExists L]) L = Inr ?log"
      using failed(6) by (simp add: l)
    have res: "result_of (close E h' tr) \<noteq> Inr ()" using failed(7) by (simp add: result_of_def)
    have W: "trace_of (wasb_write E h' ?log R True ?tr3) = ?tr3 @ WasbWriteCall ?log R True # ev"
    proof -
      obtain rr hh tt where X: "wasb_write E h' ?log R True ?tr3 = (rr, hh, tt)"
        by (metis prod_cases3)
      have "open_read E (tr @ [ParentClose, PathExists (local_loc h')]) (local_loc h') = Inr ?log"
        using failed(6) .
      then have "close E h' tr = (case rr of Inl e \<Rightarrow> (Inl e, hh, tt)
          | Inr u \<Rightarrow> if delete_local_copy hh then (Inr (), hh\<lparr>closed := True\<rparr>, tt @ [Rmtree (os_path_dirname L)])
                     else (Inr (), hh\<lparr>closed := True\<rparr>, tt))"
        using failed(1,2,3) X
        by (simp add: close_def Let_def l[unfolded local_loc_def] r[unfolded remote_loc_def]
            l r local_loc_def[symmetric] remote_loc_def[symmetric] split: sum.splits)
      then show ?thesis using failed(7) X
        by (auto simp: trace_of_def l r split: sum.splits if_splits)
    qed
    have chk: "CheckForBlob (wasb_container h') R \<in> set N"
      if "hook_method E h' (?tr3 @ [WasbWriteCall ?log R True]) = (Inr hk, h1, tr1)" for hk h1 tr1
      using wasb_write_checks[OF that] W n by (simp add: new_events_def)
    show ?thesis using failed(1,2) failed(3)[unfolded l] o res chk n by auto
  next
    case (uploaded h4 ev)
    let ?log = "local_log E h' tr"
    let ?tr3 = "tr @ [ParentClose, PathExists L, FileRead L]"
    let ?tail = "if delete_local_copy h' then [Rmtree (os_path_dirname L)] else []"
    have n: "N = [ParentClose, PathExists L, FileRead L, WasbWriteCall ?log R True] @ ev @ ?tail"
      using uploaded by (simp add: N_def new_events_append l r)
    have o: "open_read E (tr @ [ParentClose, PathExists L]) L = Inr ?log"
      using uploaded(7) by (simp add: l)
    have ld: "\<exists>text. LoadString text (wasb_container h') R True \<in> set N"
      using uploaded(8) n by (auto simp: r)
    have W: "trace_of (wasb_write E h' ?log R True ?tr3) = ?tr3 @ WasbWriteCall ?log R True # ev"
    proof -
      obtain rr hh tt where X: "wasb_write E h' ?log R True ?tr3 = (rr, hh, tt)"
        by (metis prod_cases3)
      have d: "delete_local_copy hh = delete_local_copy h'"
        using frame_fields(7)[OF wasb_write_frame(1)[OF X]] .
      have "open_read E (tr @ [ParentClose, PathExists (local_loc h')]) (local_loc h') = Inr ?log"
        using uploaded(7) .
      then have "close E h' tr = (case rr of Inl e \<Rightarrow> (Inl e, hh, tt)
          | Inr u \<Rightarrow> if delete_local_copy h' then (Inr (), hh\<lparr>closed := True\<rparr>, tt @ [Rmtree (os_path_dirname L)])
                     else (Inr (), hh\<lparr>closed := True\<rparr>, tt))"
        using uploaded(1,2,3) X d
        by (simp add: close_def Let_def l[unfolded local_loc_def] r[unfolded remote_loc_def]
            l r local_loc_def[symmetric] remote_loc_def[symmetric] split: sum.splits)
      then show ?thesis using uploaded(9) X
        by (auto simp: trace_of_def l r split: sum.splits if_splits)
    qed
    have chk: "CheckForBlob (wasb_container h') R \<in> set N"
      if "hook_method E h' (?tr3 @ [WasbWriteCall ?log R True]) = (Inr hk, h1, tr1)" for hk h1 tr1
      using wasb_write_checks[OF that] W n by (simp add: new_events_def)
    show ?thesis using uploaded(1,2) uploaded(3)[unfolded l] o ld chk n by auto
  qed
  have main2:
    "((\<exists>x \<in> set N. is_upload_attempt x) \<longleftrightarrow>
        \<not> closed h \<and> \<not> raw ti \<and> os_path_exists E (tr @ [ParentClose]) L \<and>
        (\<exists>log. open_read E (tr @ [ParentClose, PathExists L]) L = Inr log)) \<and>
     (\<forall>log. \<not> closed h \<and> \<not> raw ti \<and> os_path_exists E (tr @ [ParentClose]) L \<and>
        open_read E (tr @ [ParentClose, PathExists L]) L = Inr log \<longrightarrow>
        WasbWriteCall log R True \<in> set N \<and>
        (\<forall>hk h1 tr1.
           hook_method E h' (tr @ [ParentClose, PathExists L, FileRead L, WasbWriteCall log R True])
             = (Inr hk, h1, tr1) \<longrightarrow>
           CheckForBlob (wasb_container h) R \<in> set N) \<and>
        (result_of (close E h' tr) = Inr () \<longrightarrow>
           (\<exists>text. LoadString text (wasb_container h) R True \<in> set N))) \<and>
     ((\<exists>x \<in> set N. is_remote_write x) \<longrightarrow> (\<exists>x \<in> set N. is_upload_attempt x)) \<and>
     (raw ti \<longrightarrow> (\<forall>x \<in> set N. \<not> is_upload_attempt x \<and> \<not> is_remote_write x))"
    using main[unfolded c wc u not_not] .
  show ?thesis
    using u[unfolded h'_def] main2[unfolded N_def h'_def L_def R_def] by (rule conjI)
qed

text \<open>
  Witness for C6: a normal run with a readable local log file; the upload is attempted
  with the text of the file and reaches \<^verbatim>\<open>load_string\<close>.
\<close>

theorem close_upload_iff_witness:
  "\<not> closed h0 \<and> \<not> raw ti1
   \<and> os_path_exists env1 ([ParentSetContext ti1] @ [ParentClose]) ''/logs/d/t/1.log''
   \<and> open_read env1 ([ParentSetContext ti1] @ [ParentClose, PathExists ''/logs/d/t/1.log''])
        ''/logs/d/t/1.log'' = Inr ''B''
   \<and> WasbWriteCall ''B'' ''wasb/logs/d/t/1.log'' True
        \<in> set (new_events [ParentSetContext ti1]
                 (close env1 (fst (set_context env1 h0 ti1 [])) [ParentSetContext ti1]))
   \<and> (\<exists>x \<in> set (new_events [ParentSetContext ti1]
          (close env1 (fst (set_context env1 h0 ti1 [])) [ParentSetContext ti1])). is_upload_attempt x)"
proof -
  have c: "\<not> closed h0" by (simp add: h0_def init_def)
  have r: "\<not> raw ti1" by (simp add: ti1_def)
  have l: "os_path_join (local_base h0) (render_filename env1 ti1 (try_number ti1)) = ''/logs/d/t/1.log''"
    "os_path_join (remote_base h0) (render_filename env1 ti1 (try_number ti1)) = ''wasb/logs/d/t/1.log''"
    by (simp_all add: env1_def mem_env_def h0_def init_def ti1_def os_path_join_def)
  have p: "os_path_exists env1 ([ParentSetContext ti1] @ [ParentClose]) ''/logs/d/t/1.log''"
    by (simp add: env1_def mem_env_def os_path_exists_def os_path_dirname_def)
  have o: "open_read env1 ([ParentSetContext ti1] @ [ParentClose, PathExists ''/logs/d/t/1.log''])
        ''/logs/d/t/1.log'' = Inr ''B''"
    by (simp add: env1_def mem_env_def open_read_def)
  note t = close_upload_iff[of env1 h0 ti1 "[]" "[ParentSetContext ti1]", unfolded l]
  have a: "\<exists>x \<in> set (new_events [ParentSetContext ti1]
          (close env1 (fst (set_context env1 h0 ti1 [])) [ParentSetContext ti1])). is_upload_attempt x"
    using t[THEN conjunct2, THEN conjunct1] c r p o by blast
  have w: "WasbWriteCall ''B'' ''wasb/logs/d/t/1.log'' True
        \<in> set (new_events [ParentSetContext ti1]
                 (close env1 (fst (set_context env1 h0 ti1 [])) [ParentSetContext ti1]))"
    using t[THEN conjunct2, THEN conjunct2, THEN conjunct1, THEN spec, of "''B''"] c r p o by blast
  show ?thesis using c r p o a w by blast
qed

text \<open>
  Counterexample to C6 as stated: after a normal \<^verbatim>\<open>set_context\<close>, with \<open>upload_on_close\<close>
  true and a local log file that exists and cannot be read, \<^verbatim>\<open>close\<close> raises at the read
  and attempts no upload.
\<close>

theorem close_unreadable_file_counterexample:
  "fst (set_context env_unreadable h0 ti1 []) = h_ctx \<and> \<not> raw ti1
   \<and> upload_on_close h_ctx
   \<and> os_path_exists env_unreadable [ParentClose] (os_path_join (local_base h_ctx) (log_relative_path h_ctx))
   \<and> close env_unreadable h_ctx [] =
       (Inl (OtherError ''PermissionError''), h_ctx,
        [ParentClose, PathExists ''/logs/d/t/1.log'', FileRead ''/logs/d/t/1.log''])
   \<and> filter is_upload_attempt (new_events [] (close env_unreadable h_ctx [])) = []
   \<and> filter is_remote_write (new_events [] (close env_unreadable h_ctx [])) = []"
  by (simp add: run_defs)

text \<open>
  Claim C9. Whenever \<^verbatim>\<open>close\<close> removes the local log directory, the option
  \<open>delete_local_copy\<close> is set, the local file existed, and the removal is the last event
  of the call: the read of the local file, the entry into \<^verbatim>\<open>wasb_write\<close> and a call of
  \<^verbatim>\<open>load_string\<close> all precede it, and no removal does. If the local file does not
  exist, \<^verbatim>\<open>close\<close> removes nothing.
\<close>

theorem close_delete_after_upload:
  "(\<forall>pre d post. new_events tr (close E h tr) = pre @ Rmtree d # post \<longrightarrow>
       delete_local_copy h \<and> path_exists E (tr @ [ParentClose]) (local_loc h) \<and>
       FileRead (local_loc h) \<in> set pre \<and>
       WasbWriteCall (local_log E h tr) (remote_loc h) True \<in> set pre \<and>
       (\<exists>x \<in> set pre. is_remote_write x) \<and>
       (\<forall>x \<in> set pre. \<not> is_local_delete x) \<and> post = []) \<and>
   (\<not> path_exists E (tr @ [ParentClose]) (local_loc h) \<longrightarrow>
       (\<forall>x \<in> set (new_events tr (close E h tr)). \<not> is_local_delete x))"
proof (cases rule: close_cases[of h E tr])
  case already
  then show ?thesis by (simp add: new_events_def trace_of_def)
next
  case raw
  have n: "new_events tr (close E h tr) = [ParentClose]"
    using raw by (simp add: new_events_append)
  show ?thesis unfolding n using no_delete_no_split[of "[ParentClose]"] by simp
next
  case nofile
  have n: "new_events tr (close E h tr) = [ParentClose, PathExists (local_loc h)]"
    using nofile by (simp add: new_events_append)
  show ?thesis unfolding n
    using no_delete_no_split[of "[ParentClose, PathExists (local_loc h)]"] by simp
next
  case (unreadable e)
  have n: "new_events tr (close E h tr) =
      [ParentClose, PathExists (local_loc h), FileRead (local_loc h)]"
    using unreadable by (simp add: new_events_append)
  show ?thesis unfolding n
    using no_delete_no_split[of "[ParentClose, PathExists (local_loc h), FileRead (local_loc h)]"]
    by simp
next
  case (failed e h4 ev)
  have pe: "path_exists E (tr @ [ParentClose]) (local_loc h)"
    using failed(3) by (simp add: os_path_exists_def)
  let ?X = "[ParentClose, PathExists (local_loc h), FileRead (local_loc h),
          WasbWriteCall (local_log E h tr) (remote_loc h) True] @ ev"
  have n: "new_events tr (close E h tr) = ?X"
    using failed by (simp add: new_events_append)
  have nd: "\<forall>x \<in> set ?X. \<not> is_local_delete x" using failed(5) not_delete by auto
  show ?thesis unfolding n using no_delete_no_split[OF nd] pe by simp
next
  case (uploaded h4 ev)
  have pe: "path_exists E (tr @ [ParentClose]) (local_loc h)"
    using uploaded(3) by (simp add: os_path_exists_def)
  let ?X = "[ParentClose, PathExists (local_loc h), FileRead (local_loc h),
          WasbWriteCall (local_log E h tr) (remote_loc h) True] @ ev"
  have nd: "\<forall>x \<in> set ?X. \<not> is_local_delete x" using uploaded(5) not_delete by auto
  show ?thesis
  proof (cases "delete_local_copy h")
    case True
    have n: "new_events tr (close E h tr) = ?X @ [Rmtree (os_path_dirname (local_loc h))]"
      using uploaded True by (simp add: new_events_append)
    have "delete_local_copy h \<and> path_exists E (tr @ [ParentClose]) (local_loc h) \<and>
       FileRead (local_loc h) \<in> set pre \<and>
       WasbWriteCall (local_log E h tr) (remote_loc h) True \<in> set pre \<and>
       (\<exists>x \<in> set pre. is_remote_write x) \<and>
       (\<forall>x \<in> set pre. \<not> is_local_delete x) \<and> post = []"
      if eq: "?X @ [Rmtree (os_path_dirname (local_loc h))] = pre @ Rmtree d # post" for pre d post
    proof -
      have p: "pre = ?X" "post = []"
        using split_at_last[OF eq, of is_local_delete] nd by simp_all
      have w: "\<exists>x \<in> set ?X. is_remote_write x" using uploaded(6) by auto
      show ?thesis unfolding p using True pe nd w by simp
    qed
    then show ?thesis unfolding n using pe by blast
  next
    case False
    have n: "new_events tr (close E h tr) = ?X"
      using uploaded False by (simp add: new_events_append)
    show ?thesis unfolding n using no_delete_no_split[OF nd] pe by simp
  qed
qed

text \<open>Witness for C9: the events of closing a normal run with \<open>delete_local_copy\<close> set.\<close>

theorem close_delete_after_upload_witness:
  "new_events [] (close env1 h_ctx []) =
     [ParentClose, PathExists ''/logs/d/t/1.log'', FileRead ''/logs/d/t/1.log'',
      WasbWriteCall ''B'' ''wasb/logs/d/t/1.log'' True, NewWasbHook ''wasb_default'',
      CheckForBlob ''cont'' ''wasb/logs/d/t/1.log'', ReadFile ''cont'' ''wasb/logs/d/t/1.log'',
      LoadString ''A\<newline>B'' ''cont'' ''wasb/logs/d/t/1.log'' True]
     @ Rmtree ''/logs/d/t'' # []
   \<and> FileRead (local_loc h_ctx) \<in> set
     [ParentClose, PathExists ''/logs/d/t/1.log'', FileRead ''/logs/d/t/1.log'',
      WasbWriteCall ''B'' ''wasb/logs/d/t/1.log'' True, NewWasbHook ''wasb_default'',
      CheckForBlob ''cont'' ''wasb/logs/d/t/1.log'', ReadFile ''cont'' ''wasb/logs/d/t/1.log'',
      LoadString ''A\<newline>B'' ''cont'' ''wasb/logs/d/t/1.log'' True]
   \<and> delete_local_copy h_ctx"
proof -
  let ?pre = "[ParentClose, PathExists ''/logs/d/t/1.log'', FileRead ''/logs/d/t/1.log'',
      WasbWriteCall ''B'' ''wasb/logs/d/t/1.log'' True, NewWasbHook ''wasb_default'',
      CheckForBlob ''cont'' ''wasb/logs/d/t/1.log'', ReadFile ''cont'' ''wasb/logs/d/t/1.log'',
      LoadString ''A\<newline>B'' ''cont'' ''wasb/logs/d/t/1.log'' True]"
  have e: "new_events [] (close env1 h_ctx []) = ?pre @ Rmtree ''/logs/d/t'' # []"
    by (simp add: run_defs)
  have "\<forall>pre d post. new_events [] (close env1 h_ctx []) = pre @ Rmtree d # post \<longrightarrow>
       delete_local_copy h_ctx \<and> path_exists env1 ([] @ [ParentClose]) (local_loc h_ctx) \<and>
       FileRead (local_loc h_ctx) \<in> set pre \<and>
       WasbWriteCall (local_log env1 h_ctx []) (remote_loc h_ctx) True \<in> set pre \<and>
       (\<exists>x \<in> set pre. is_remote_write x) \<and>
       (\<forall>x \<in> set pre. \<not> is_local_delete x) \<and> post = []"
    using close_delete_after_upload[of "[]" env1 h_ctx] by (rule conjunct1)
  then show ?thesis using e by blast
qed



section \<open>Reading from the remote store\<close>

text \<open>
  What \<^verbatim>\<open>_read\<close> does when the existence check reports the remote location, computed
  from the given task instance and try number, present. It never calls the parent's read;
  when the store delivers a content, the result is the header line naming the remote
  location, the content and a newline, with \<open>end_of_log\<close> true; when the store read fails
  with \<^verbatim>\<open>AzureHttpError\<close>, the result is the same with the error message in place of the
  content; whenever \<^verbatim>\<open>_read\<close> returns, the status is \<open>end_of_log\<close> true and the text is the
  header followed by a body and a newline; and the result does not depend on the relative
  path kept in the handler.
\<close>

lemma read_log_present_branch:
  assumes "wasb_log_exists E h (os_path_join (remote_base h) (render_filename E ti n)) tr = (Inr True, h1, tr1)"
  shows "(\<forall>x \<in> set (new_events tr (read_log E h ti n md tr)). \<not> is_parent_read x) \<and>
    (\<forall>content. read_file E tr1 (wasb_container h) (os_path_join (remote_base h) (render_filename E ti n)) = Inr content \<longrightarrow>
       result_of (read_log E h ti n md tr) =
         Inr (''*** Reading remote log from '' @ os_path_join (remote_base h) (render_filename E ti n)
                @ ''.'' @ [CHR 0x0A] @ content @ [CHR 0x0A],
              [(''end_of_log'', True)])) \<and>
    (read_file E tr1 (wasb_container h) (os_path_join (remote_base h) (render_filename E ti n)) = Inl AzureHttpError \<longrightarrow>
       result_of (read_log E h ti n md tr) =
         Inr (''*** Reading remote log from '' @ os_path_join (remote_base h) (render_filename E ti n)
                @ ''.'' @ [CHR 0x0A]
                @ ''Could not read logs from '' @ os_path_join (remote_base h) (render_filename E ti n)
                @ [CHR 0x0A],
              [(''end_of_log'', True)])) \<and>
    (\<forall>text status. result_of (read_log E h ti n md tr) = Inr (text, status) \<longrightarrow>
       status = [(''end_of_log'', True)] \<and>
       (\<exists>body. text = ''*** Reading remote log from '' @ os_path_join (remote_base h) (render_filename E ti n)
                @ ''.'' @ [CHR 0x0A] @ body @ [CHR 0x0A])) \<and>
    (\<forall>p. result_of (read_log E (h\<lparr>log_relative_path := p\<rparr>) ti n md tr) = result_of (read_log E h ti n md tr))"
proof -
  let ?loc = "os_path_join (remote_base h) (render_filename E ti n)"
  let ?c = "wasb_container h"
  note F = wasb_log_exists_frame[OF assms]
  from F(4) obtain hk where s: "hook_slot h1 = Some (Some hk)" by blast
  have c: "wasb_container h1 = ?c" using frame_fields(2)[OF F(1)] .
  from F(2) obtain ev where ev: "tr1 = tr @ ev" "\<forall>e \<in> set ev. is_quiet e" by blast
  have npr: "\<forall>x \<in> set ev. \<not> is_parent_read x" using ev(2) quiet_not by blast
  have hm: "\<And>t. hook_method E h1 t = (Inr hk, h1, t)" using hook_method_cached[OF s] .
  have R: "read_log E h ti n md tr =
      (case read_file E tr1 ?c ?loc of
         Inr content \<Rightarrow> (Inr (''*** Reading remote log from '' @ ?loc @ ''.'' @ [CHR 0x0A] @ content @ [CHR 0x0A],
              [(''end_of_log'', True)]), h1, tr @ ev @ [ReadFile ?c ?loc])
       | Inl e \<Rightarrow> if e = AzureHttpError
           then (Inr (''*** Reading remote log from '' @ ?loc @ ''.'' @ [CHR 0x0A] @ (''Could not read logs from '' @ ?loc) @ [CHR 0x0A],
              [(''end_of_log'', True)]), h1, tr @ ev @ [ReadFile ?c ?loc, LogException (''Could not read logs from '' @ ?loc)])
           else (Inl e, h1, tr @ ev @ [ReadFile ?c ?loc]))"
    by (simp add: read_log_def assms wasb_read_def hm c ev(1) Let_def split: sum.splits)
  have 1: "\<forall>x \<in> set (new_events tr (read_log E h ti n md tr)). \<not> is_parent_read x"
    unfolding R using npr by (simp add: new_events_append split: sum.splits)
  have 2: "\<forall>content. read_file E tr1 ?c ?loc = Inr content \<longrightarrow>
       result_of (read_log E h ti n md tr) =
         Inr (''*** Reading remote log from '' @ ?loc @ ''.'' @ [CHR 0x0A] @ content @ [CHR 0x0A],
              [(''end_of_log'', True)])"
    unfolding R by (simp add: result_of_def)
  have 3: "read_file E tr1 ?c ?loc = Inl AzureHttpError \<longrightarrow>
       result_of (read_log E h ti n md tr) =
         Inr (''*** Reading remote log from '' @ ?loc @ ''.'' @ [CHR 0x0A]
                @ ''Could not read logs from '' @ ?loc @ [CHR 0x0A],
              [(''end_of_log'', True)])"
    unfolding R by (simp add: result_of_def)
  have 4: "\<forall>text status. result_of (read_log E h ti n md tr) = Inr (text, status) \<longrightarrow>
       status = [(''end_of_log'', True)] \<and>
       (\<exists>body. text = ''*** Reading remote log from '' @ ?loc @ ''.'' @ [CHR 0x0A] @ body @ [CHR 0x0A])"
    unfolding R by (auto simp: result_of_def split: sum.splits if_splits)
  show ?thesis using 1 2 3 4 read_log_ignores_path by blast
qed

text \<open>
  Claim C7, evaluated where it fails. The store holds the blob, so the existence check
  reports the location present, and the read of the blob fails with an exception that is
  not an \<^verbatim>\<open>AzureHttpError\<close>. The clause at line 158 does not catch it: \<^verbatim>\<open>wasb_read\<close>
  raises and \<^verbatim>\<open>_read\<close> raises with it, where the claim (and the comment at lines 124-126)
  says that the returned text carries the error message. The local read is not consulted.
\<close>

theorem read_log_raises_on_read_failure:
  "result_of (wasb_log_exists env_read_fails h0 ''wasb/logs/d/t/1.log'' []) = Inr True
   \<and> read_file env_read_fails [NewWasbHook ''wasb_default'', CheckForBlob ''cont'' ''wasb/logs/d/t/1.log'']
        ''cont'' ''wasb/logs/d/t/1.log'' = Inl (OtherError ''AzureException'')
   \<and> result_of (read_log env_read_fails h0 ti1 1 None []) = Inl (OtherError ''AzureException'')
   \<and> trace_of (read_log env_read_fails h0 ti1 1 None []) =
       [NewWasbHook ''wasb_default'', CheckForBlob ''cont'' ''wasb/logs/d/t/1.log'',
        ReadFile ''cont'' ''wasb/logs/d/t/1.log'']"
  by (simp add: run_defs)

end
